theory Spec2Isabelle
  imports Main
begin

section \<open>Errors and results\<close>

text \<open>
  Every exception of the Python source and every error of the composition contract is a
  value. A computation returns \<open>error + 'a\<close>, with \<open>Inl\<close> for the raised error.
\<close>

datatype error =
    KeyError string
  | RegionOverlapError
  | RegionRedefinedError
  | ClockSourceCycleError
  | ExternalToolFailure int string

definition bind_r :: "error + 'a \<Rightarrow> ('a \<Rightarrow> error + 'b) \<Rightarrow> error + 'b" where
  "bind_r m f = (case m of Inl e \<Rightarrow> Inl e | Inr x \<Rightarrow> f x)"

fun sequence_r :: "(error + 'a) list \<Rightarrow> error + 'a list" where
  "sequence_r [] = Inr []"
| "sequence_r (m # ms) = bind_r m (\<lambda>x. bind_r (sequence_r ms) (\<lambda>xs. Inr (x # xs)))"

section \<open>Module constants of base.py\<close>

text \<open>\<^verbatim>\<open>kB = 1024\<close> and \<^verbatim>\<open>mB = 1024*kB\<close> (lines 27 and 28); Python integers are unbounded.\<close>

definition kB :: int where
  "kB = 1024"

definition mB :: int where
  "mB = 1024 * kB"

text \<open>
  The dictionary literal assigned to \<^verbatim>\<open>SoCCore.mem_map\<close> (lines 56 to 62), in the order it
  is written. A lookup \<^verbatim>\<open>d[k]\<close> of a missing key raises KeyError.
\<close>

definition mem_map_literal :: "(string \<times> int) list" where
  "mem_map_literal =
     [(''rom'',      0x00000000),
      (''sram'',     0x10000000),
      (''spiflash'', 0x20000000),
      (''main_ram'', 0x40000000),
      (''csr'',      0x82000000)]"

definition getitem :: "(string \<times> int) list \<Rightarrow> string \<Rightarrow> error + int" where
  "getitem d k = (case map_of d k of None \<Rightarrow> Inl (KeyError k) | Some v \<Rightarrow> Inr v)"

section \<open>Address space\<close>

text \<open>A region of the CPU address map: the half-open interval from base to base + size.\<close>

record region =
  r_name :: string
  r_base :: int
  r_size :: int

definition intersects :: "region \<Rightarrow> region \<Rightarrow> bool" where
  "intersects p q \<longleftrightarrow>
     max (r_base p) (r_base q) < min (r_base p + r_size p) (r_base q + r_size q)"

text \<open>
  Modelled from the spec: the allocator that registers regions is not in base.py (the
  regions are registered inside the SoC library that base.py calls). Section 4.1:
  \<open>allocate\<close> fails with RegionOverlapError if the new interval intersects any
  registered interval, and with RegionRedefinedError if the name is already registered;
  the allocator is append-only.
\<close>

definition allocate :: "region list \<Rightarrow> region \<Rightarrow> error + region list" where
  "allocate rs r =
     (if list_ex (\<lambda>q. intersects q r) rs then Inl RegionOverlapError
      else if r_name r \<in> set (map r_name rs) then Inl RegionRedefinedError
      else Inr (rs @ [r]))"

fun allocate_all :: "region list \<Rightarrow> region list \<Rightarrow> error + region list" where
  "allocate_all rs [] = Inr rs"
| "allocate_all rs (r # xs) = bind_r (allocate rs r) (\<lambda>rs'. allocate_all rs' xs)"

text \<open>
  Modelled from the spec: the reconciliation of a requested mapped size with the limit
  of the address map is not in base.py, which only passes \<^verbatim>\<open>size\<close> and
  \<^verbatim>\<open>max_sdram_size\<close> to the library. Section 4.1: \<open>clamp\<close> returns
  min(requested_size, max_size).
\<close>

definition clamp :: "string \<Rightarrow> int \<Rightarrow> int \<Rightarrow> int" where
  "clamp name requested_size max_size = min requested_size max_size"

section \<open>Clock and reset generator\<close>

text \<open>
  Modelled from the spec: the PLL class (\<^verbatim>\<open>ECP5PLL\<close>) is library code, not in base.py.
  Section 4.2: a reference oscillator is registered first; deriving an output from a
  reference that is not registered fails with ClockSourceCycleError; the phase of a
  derived output is stored as the caller gave it, with default 0. Frequencies are in Hz;
  the source writes the reference as \<^verbatim>\<open>25e6\<close>, the integer 25000000.
\<close>

record clkout =
  cd :: string
  freq :: int
  phase :: int

record ECP5PLL =
  clkin :: "(string \<times> int) option"
  clkouts :: "clkout list"

definition register_clkin :: "ECP5PLL \<Rightarrow> string \<Rightarrow> int \<Rightarrow> ECP5PLL" where
  "register_clkin p clk f = p\<lparr>clkin := Some (clk, f)\<rparr>"

definition create_clkout :: "ECP5PLL \<Rightarrow> string \<Rightarrow> int \<Rightarrow> int \<Rightarrow> error + ECP5PLL" where
  "create_clkout p d f ph =
     (case clkin p of
        None \<Rightarrow> Inl ClockSourceCycleError
      | Some _ \<Rightarrow> Inr (p\<lparr>clkouts := clkouts p @ [\<lparr>cd = d, freq = f, phase = ph\<rparr>]\<rparr>))"

text \<open>
  The signal expressions and the special primitives that \<^verbatim>\<open>_CRG.__init__\<close> instantiates:
  \<^verbatim>\<open>AsyncResetSynchronizer(cd, async_reset)\<close> and
  \<^verbatim>\<open>DDROutput(i1, i2, o, clk)\<close> with \<^verbatim>\<open>clk = ClockSignal(domain)\<close>.
\<close>

datatype signal = PllLocked | Const int | Invert signal | BitOr signal signal

datatype special =
    AsyncResetSynchronizer string signal
  | DDROutput int int string string

record CRG =
  clock_domains :: "string list"
  pll :: ECP5PLL
  specials :: "special list"

text \<open>\<^verbatim>\<open>platform.request(name)\<close> hands out the board signal of that name.\<close>

definition request :: "string \<Rightarrow> string \<Rightarrow> string" where
  "request platform name = name"

text \<open>
  \<^verbatim>\<open>_CRG.__init__(self, platform, sys_clk_freq)\<close>, lines 33 to 52, statement by statement:
  two clock domains, the PLL fed by clk25, the sys output, the sys_ps output at the same
  frequency with phase 180, one reset synchronizer (for sys), and the SDRAM clock output
  driven by the clock of sys_ps.
\<close>

definition CRG_init :: "string \<Rightarrow> int \<Rightarrow> error + CRG" where
  "CRG_init platform sys_clk_freq =
     (let clk25 = request platform ''clk25'';
          rst_n = 1;
          pll0 = \<lparr>clkin = None, clkouts = []\<rparr>;
          pll1 = register_clkin pll0 clk25 25000000
      in bind_r (create_clkout pll1 ''sys'' sys_clk_freq 0) (\<lambda>pll2.
         bind_r (create_clkout pll2 ''sys_ps'' sys_clk_freq 180) (\<lambda>pll3.
         Inr \<lparr>clock_domains = [''sys'', ''sys_ps''],
              pll = pll3,
              specials =
                [AsyncResetSynchronizer ''sys'' (BitOr (Invert PllLocked) (Invert (Const rst_n))),
                 DDROutput 1 0 (request platform ''sdram_clock'') ''sys_ps'']\<rparr>)))"

text \<open>The domains whose reset is synchronized, and the domains whose clock is used.\<close>

fun reset_synchronized :: "special list \<Rightarrow> string list" where
  "reset_synchronized [] = []"
| "reset_synchronized (AsyncResetSynchronizer d g # xs) = d # reset_synchronized xs"
| "reset_synchronized (DDROutput a b pad d # xs) = reset_synchronized xs"

fun clock_uses :: "special list \<Rightarrow> string list" where
  "clock_uses [] = []"
| "clock_uses (AsyncResetSynchronizer d g # xs) = clock_uses xs"
| "clock_uses (DDROutput a b pad d # xs) = d # clock_uses xs"

fun find_clkout :: "clkout list \<Rightarrow> string \<Rightarrow> clkout option" where
  "find_clkout [] d = None"
| "find_clkout (c # cs) d = (if cd c = d then Some c else find_clkout cs d)"

section \<open>BaseSoC\<close>

text \<open>
  What the library decides and base.py does not say: the sizes of the regions base.py
  gives no size for, and whether \<^verbatim>\<open>add_spi_flash\<close> leaves an attribute named
  \<^verbatim>\<open>spiflash\<close> on the SoC object. They are parameters of the model.
\<close>

record litex =
  integrated_sram_size :: int
  spiflash_size :: int
  csr_size :: int
  spiflash_attr :: bool

text \<open>
  The process-wide state base.py touches: \<^verbatim>\<open>SoCCore.mem_map\<close> is an attribute of the
  library class, shared by every SoC object of the process.
\<close>

record globals =
  SoCCore_mem_map :: "(string \<times> int) list"

text \<open>The keyword arguments of \<^verbatim>\<open>add_sdram\<close> (lines 80 to 88).\<close>

record sdram =
  sd_phy :: string
  sd_module :: "string \<times> int \<times> string"
  sd_origin :: int
  sd_size :: int
  l2_cache_size :: int
  l2_cache_min_data_width :: int
  l2_cache_reverse :: bool

record soc =
  platform :: string
  cpu_type :: string
  cpu_variant :: string
  clk_freq :: int
  ident :: string
  max_sdram_size :: int
  ident_version :: bool
  integrated_rom_size :: int
  mem_map :: "(string \<times> int) list"
  crg :: CRG
  main_ram :: sdram
  csrs :: "string list"
  ethernet_phy :: string
  spi_flash_mode :: string
  spi_flash_dummy_cycles :: int
  attrs :: "string list"
  constants :: "string \<rightharpoonup> int"

text \<open>
  \<^verbatim>\<open>BaseSoC.__init__(self, revision)\<close>, lines 55 to 96. The first statement overwrites
  the class attribute \<^verbatim>\<open>SoCCore.mem_map\<close>; \<^verbatim>\<open>self.mem_map\<close> then reads that table.
  \<^verbatim>\<open>sys_clk_freq = int(66e6)\<close> is the integer 66000000, and the SoC is declared with
  \<^verbatim>\<open>clk_freq = sys_clk_freq*3\<close> while the clock generator receives \<^verbatim>\<open>sys_clk_freq\<close>.
  An assignment \<^verbatim>\<open>self.submodules.x = ...\<close> creates the attribute \<^verbatim>\<open>x\<close>. The library
  calls in between are taken to leave the table as base.py wrote it.
\<close>

definition BaseSoC_init :: "litex \<Rightarrow> globals \<Rightarrow> string \<Rightarrow> globals \<times> (error + soc)" where
  "BaseSoC_init lib g revision =
     (let g1 = g\<lparr>SoCCore_mem_map := mem_map_literal\<rparr>;
          platform0 = revision;
          sys_clk_freq = 66000000
      in (g1,
          bind_r (CRG_init platform0 sys_clk_freq) (\<lambda>c.
          bind_r (getitem (SoCCore_mem_map g1) ''main_ram'') (\<lambda>org.
          Inr \<lparr>platform = platform0,
               cpu_type = ''vexriscv'',
               cpu_variant = ''linux'',
               clk_freq = sys_clk_freq * 3,
               ident = ''LiteX RISC-V SoC on 5A-75B'',
               max_sdram_size = 0x400000,
               ident_version = True,
               integrated_rom_size = 0x8000,
               mem_map = SoCCore_mem_map g1,
               crg = c,
               main_ram =
                 \<lparr>sd_phy = ''sdrphy'',
                  sd_module = (''M12L16161A'', sys_clk_freq, ''1:1''),
                  sd_origin = org,
                  sd_size = 4 * mB,
                  l2_cache_size = 0x8000,
                  l2_cache_min_data_width = 128,
                  l2_cache_reverse = True\<rparr>,
               csrs = [''ethphy''],
               ethernet_phy = ''ethphy'',
               spi_flash_mode = ''1x'',
               spi_flash_dummy_cycles = 8,
               attrs = [''crg'', ''sdrphy'', ''ethphy'']
                       @ (if spiflash_attr lib then [''spiflash''] else []),
               constants = Map.empty\<rparr>))))"

text \<open>
  \<^verbatim>\<open>configure_boot\<close>, lines 112 to 114: when the object has an attribute \<^verbatim>\<open>spiflash\<close>,
  the constant FLASH_BOOT_ADDRESS is set to \<^verbatim>\<open>self.mem_map["spiflash"] + 1*mB\<close>.
\<close>

definition add_constant :: "soc \<Rightarrow> string \<Rightarrow> int \<Rightarrow> soc" where
  "add_constant s name v = s\<lparr>constants := (constants s)(name \<mapsto> v)\<rparr>"

definition configure_boot :: "soc \<Rightarrow> error + soc" where
  "configure_boot s =
     (if ''spiflash'' \<in> set (attrs s)
      then bind_r (getitem (mem_map s) ''spiflash'') (\<lambda>b.
             Inr (add_constant s ''FLASH_BOOT_ADDRESS'' (b + 1 * mB)))
      else Inr s)"

text \<open>
  Modelled from the spec: the regions are registered inside the library calls that
  base.py makes, in the order of those calls (rom, sram and csr by the SoC core, main_ram
  by \<^verbatim>\<open>add_sdram\<close>, spiflash by \<^verbatim>\<open>add_spi_flash\<close>), each through \<open>allocate\<close>. The bases
  are those of \<^verbatim>\<open>mem_map\<close> and of the \<^verbatim>\<open>origin\<close> argument; the size of rom is
  \<^verbatim>\<open>integrated_rom_size\<close>, the size of main_ram is the \<^verbatim>\<open>size\<close> argument clamped by
  \<^verbatim>\<open>max_sdram_size\<close>, and the other sizes are the library's.
\<close>

definition mem_region :: "soc \<Rightarrow> string \<Rightarrow> int \<Rightarrow> error + region" where
  "mem_region s name sz =
     bind_r (getitem (mem_map s) name) (\<lambda>b. Inr \<lparr>r_name = name, r_base = b, r_size = sz\<rparr>)"

definition compose_regions :: "litex \<Rightarrow> soc \<Rightarrow> error + region list" where
  "compose_regions lib s =
     bind_r
       (sequence_r
          [mem_region s ''rom'' (integrated_rom_size s),
           mem_region s ''sram'' (integrated_sram_size lib),
           mem_region s ''csr'' (csr_size lib),
           Inr \<lparr>r_name = ''main_ram'', r_base = sd_origin (main_ram s),
                r_size = clamp ''main_ram'' (sd_size (main_ram s)) (max_sdram_size s)\<rparr>,
           mem_region s ''spiflash'' (spiflash_size lib)])
       (allocate_all [])"

section \<open>Build and load\<close>

text \<open>
  The command-line flags \<^verbatim>\<open>--build\<close>, \<^verbatim>\<open>--load\<close> and \<^verbatim>\<open>--cable\<close> (lines 123 to 125), and
  the external effects of a run in the order they happen: those of the build step, the
  printed cable name, and the command run through \<^verbatim>\<open>os.system\<close> with the status
  that \<^verbatim>\<open>os.system\<close> returned for it (0 when the command succeeded).
\<close>

record args =
  build :: bool
  load :: bool
  cable :: string

datatype build_event = PrepareInputs | Synthesis

datatype event = Builder build_event | Print string | OsSystem string int

text \<open>
  The collaborators of \<^verbatim>\<open>main\<close>: the library behind \<^verbatim>\<open>Builder.build\<close>, which performs
  external effects and returns or raises; \<^verbatim>\<open>os.system\<close>, which returns the exit status of
  the command; and the two library attributes \<^verbatim>\<open>builder.gateware_dir\<close> and
  \<^verbatim>\<open>soc.build_name\<close>.
\<close>

record env =
  lib :: litex
  builder_build :: "soc \<Rightarrow> bool \<Rightarrow> build_event list \<times> (error + unit)"
  os_system :: "string \<Rightarrow> int"
  gateware_dir :: string
  build_name :: string

text \<open>\<^verbatim>\<open>os.path.join(a, b)\<close> on POSIX.\<close>

definition os_path_join :: "string \<Rightarrow> string \<Rightarrow> string" where
  "os_path_join a b =
     (if b \<noteq> [] \<and> hd b = CHR ''/'' then b
      else if a = [] \<or> last a = CHR ''/'' then a @ b
      else a @ ''/'' @ b)"

record run =
  events :: "event list"
  outcome :: "error + unit"

text \<open>
  \<^verbatim>\<open>main()\<close>, lines 118 to 141. The SoC is composed for revision 7.0; \<^verbatim>\<open>builder.build\<close> is
  called with \<^verbatim>\<open>run=args.build\<close>; an exception it raises ends \<^verbatim>\<open>main\<close>, which has no
  handler. Then, when \<^verbatim>\<open>args.load\<close> is set, the cable is printed and the programmer command
  is run through \<^verbatim>\<open>os.system\<close>, whose return value is not used.
\<close>

definition main :: "env \<Rightarrow> globals \<Rightarrow> args \<Rightarrow> run" where
  "main e g a =
     (case snd (BaseSoC_init (lib e) g ''7.0'') of
        Inl x \<Rightarrow> \<lparr>events = [], outcome = Inl x\<rparr>
      | Inr s \<Rightarrow>
          (case builder_build e s (build a) of
             (ev, Inl x) \<Rightarrow> \<lparr>events = map Builder ev, outcome = Inl x\<rparr>
           | (ev, Inr u) \<Rightarrow>
               (if load a
                then (let cmd = ''openFPGALoader -c '' @ cable a @ '' '' @
                                os_path_join (gateware_dir e) (build_name e @ ''.bit'');
                          status = os_system e cmd
                      in \<lparr>events = map Builder ev @ [Print (cable a), OsSystem cmd status],
                          outcome = Inr ()\<rparr>)
                else \<lparr>events = map Builder ev, outcome = Inr ()\<rparr>)))"

text \<open>
  The exit status of the script (\<^verbatim>\<open>if __name__ == "__main__": main()\<close>): 0 when \<^verbatim>\<open>main\<close>
  returns, 1 when an exception leaves it.
\<close>

definition exit_status :: "run \<Rightarrow> int" where
  "exit_status r = (case outcome r of Inl x \<Rightarrow> 1 | Inr u \<Rightarrow> 0)"

fun is_os_system :: "event \<Rightarrow> bool" where
  "is_os_system (OsSystem c st) = True"
| "is_os_system ev = False"

definition programmer_invoked :: "run \<Rightarrow> bool" where
  "programmer_invoked r = list_ex is_os_system (events r)"

text \<open>
  Modelled from the spec: the build step behind \<^verbatim>\<open>Builder.build\<close> is library code, not in
  base.py. Section 4.5: with \<open>build_requested\<close> false the build inputs are prepared and
  synthesis is not invoked, the state stays Unbuilt; otherwise the synthesis
  collaborator is invoked, a non-zero exit gives BuildFailed with the failure (exit
  status and diagnostic text, verbatim), and success records the artifact and gives
  Built. The collaborator returns its exit status and its text: the diagnostic on
  failure, the artifact path on success.
\<close>

datatype orch_state = Unbuilt | Built | BuildFailed | Loaded | LoadFailed





section \<open>Derived notions used in the statements\<close>

text \<open>No two regions at different positions of the list intersect.\<close>

definition non_overlapping :: "region list \<Rightarrow> bool" where
  "non_overlapping rs \<longleftrightarrow>
     (\<forall>i < length rs. \<forall>j < length rs. i \<noteq> j \<longrightarrow> \<not> intersects (rs ! i) (rs ! j))"

text \<open>The domains of a clock generator that are used without a reset synchronizer.\<close>

definition unsynchronized_uses :: "CRG \<Rightarrow> string list" where
  "unsynchronized_uses c =
     filter (\<lambda>d. d \<notin> set (reset_synchronized (specials c))) (clock_uses (specials c))"

text \<open>The regions, clock outputs and attached blocks of a composed SoC.\<close>

definition descriptor :: "litex \<Rightarrow> soc \<Rightarrow> (error + region list) \<times> clkout list \<times> string list" where
  "descriptor l s = (compose_regions l s, clkouts (pll (crg s)), attrs s)"

text \<open>
  Concrete collaborators for the examples: library sizes of 8 KiB of SRAM, 16 MiB of
  flash and 64 KiB of registers, a build step that succeeds, and a programmer that
  returns a given exit status.
\<close>

definition lib0 :: litex where
  "lib0 = \<lparr>integrated_sram_size = 0x2000, spiflash_size = 0x1000000, csr_size = 0x10000,
           spiflash_attr = True\<rparr>"

definition g0 :: globals where
  "g0 = \<lparr>SoCCore_mem_map = []\<rparr>"

definition succeeding_builder :: "soc \<Rightarrow> bool \<Rightarrow> build_event list \<times> (error + unit)" where
  "succeeding_builder s run_flag =
     (if run_flag then [PrepareInputs, Synthesis] else [PrepareInputs], Inr ())"

definition env0 :: "int \<Rightarrow> env" where
  "env0 st = \<lparr>lib = lib0, builder_build = succeeding_builder, os_system = (\<lambda>c. st),
              gateware_dir = ''build/colorlight_5a_75b/gateware'',
              build_name = ''colorlight_5a_75b''\<rparr>"



section \<open>Evaluation lemmas\<close>

lemma mB_value: "mB = 1048576"
  by (simp add: mB_def kB_def)

lemma getitem_literal:
  "getitem mem_map_literal ''rom'' = Inr 0"
  "getitem mem_map_literal ''sram'' = Inr 0x10000000"
  "getitem mem_map_literal ''spiflash'' = Inr 0x20000000"
  "getitem mem_map_literal ''main_ram'' = Inr 0x40000000"
  "getitem mem_map_literal ''csr'' = Inr 0x82000000"
  by (simp_all add: getitem_def mem_map_literal_def)

text \<open>The clock generator is built without error, whatever the platform and frequency.\<close>

lemma CRG_init_value:
  "CRG_init p f =
     Inr \<lparr>clock_domains = [''sys'', ''sys_ps''],
          pll = \<lparr>clkin = Some (''clk25'', 25000000),
                 clkouts = [\<lparr>cd = ''sys'', freq = f, phase = 0\<rparr>,
                            \<lparr>cd = ''sys_ps'', freq = f, phase = 180\<rparr>]\<rparr>,
          specials = [AsyncResetSynchronizer ''sys'' (BitOr (Invert PllLocked) (Invert (Const 1))),
                      DDROutput 1 0 ''sdram_clock'' ''sys_ps'']\<rparr>"
  by (simp add: CRG_init_def create_clkout_def register_clkin_def bind_r_def request_def)

lemma BaseSoC_init_ok: "\<exists>s. snd (BaseSoC_init l g rv) = Inr s"
  by (simp add: BaseSoC_init_def CRG_init_value getitem_literal bind_r_def Let_def)

lemma BaseSoC_init_fields:
  assumes "snd (BaseSoC_init l g rv) = Inr s"
  shows "clk_freq s = 198000000"
    and "mem_map s = mem_map_literal"
    and "max_sdram_size s = 0x400000"
    and "integrated_rom_size s = 0x8000"
    and "sd_origin (main_ram s) = 0x40000000"
    and "sd_size (main_ram s) = 4 * mB"
    and "attrs s = [''crg'', ''sdrphy'', ''ethphy'']
                   @ (if spiflash_attr l then [''spiflash''] else [])"
    and "constants s = Map.empty"
  using assms
  by (auto simp add: BaseSoC_init_def CRG_init_value getitem_literal bind_r_def Let_def)

section \<open>The address map\<close>

lemma intersects_sym: "intersects p q = intersects q p"
  by (auto simp add: intersects_def)

lemma allocate_Inr:
  assumes "allocate rs r = Inr rs'"
  shows "rs' = rs @ [r]" and "\<forall>q \<in> set rs. \<not> intersects q r"
  using assms by (auto simp add: allocate_def list_ex_iff split: if_splits)

lemma allocate_overlap:
  "(\<exists>q \<in> set rs. intersects q r) \<Longrightarrow> allocate rs r = Inl RegionOverlapError"
  by (simp add: allocate_def list_ex_iff)

lemma non_overlapping_Nil: "non_overlapping []"
  by (simp add: non_overlapping_def)

text \<open>Appending a region that meets none of the registered ones keeps the invariant.\<close>

lemma non_overlapping_snoc:
  assumes "non_overlapping rs" and "\<forall>q \<in> set rs. \<not> intersects q r"
  shows "non_overlapping (rs @ [r])"
  unfolding non_overlapping_def
proof (intro allI impI)
  fix i j
  assume i: "i < length (rs @ [r])" and j: "j < length (rs @ [r])" and ne: "i \<noteq> j"
  show "\<not> intersects ((rs @ [r]) ! i) ((rs @ [r]) ! j)"
  proof (cases "i < length rs")
    case True
    note iT = True
    show ?thesis
    proof (cases "j < length rs")
      case True
      with iT ne assms(1) show ?thesis
        by (simp add: non_overlapping_def nth_append)
    next
      case False
      with j have "j = length rs" by simp
      with iT assms(2) show ?thesis
        by (simp add: nth_append)
    qed
  next
    case False
    with i have ie: "i = length rs" by simp
    with ne j have jl: "j < length rs" by simp
    with assms(2) have "\<not> intersects (rs ! j) r" by simp
    then show ?thesis using ie jl
      by (simp add: nth_append intersects_sym)
  qed
qed

lemma allocate_all_non_overlapping:
  "non_overlapping rs \<Longrightarrow> allocate_all rs xs = Inr rs' \<Longrightarrow> non_overlapping rs'"
proof (induction xs arbitrary: rs)
  case Nil
  then show ?case by simp
next
  case (Cons r xs)
  from Cons.prems(2) obtain rs1 where a: "allocate rs r = Inr rs1"
    and b: "allocate_all rs1 xs = Inr rs'"
    by (auto simp add: bind_r_def split: sum.splits)
  from allocate_Inr[OF a] Cons.prems(1) have "non_overlapping rs1"
    by (simp add: non_overlapping_snoc)
  then show ?case using b by (rule Cons.IH)
qed

lemma allocate_all_append:
  "allocate_all rs xs = Inr rs' \<Longrightarrow> rs' = rs @ xs"
proof (induction xs arbitrary: rs)
  case Nil
  then show ?case by simp
next
  case (Cons r xs)
  from Cons.prems obtain rs1 where a: "allocate rs r = Inr rs1"
    and b: "allocate_all rs1 xs = Inr rs'"
    by (auto simp add: bind_r_def split: sum.splits)
  from Cons.IH[OF b] allocate_Inr(1)[OF a] show ?case by simp
qed

text \<open>
  The regions that the composition registers, in order. When the registration succeeds,
  the map is this list; it succeeds when the library's SRAM ends at or below the flash
  base and the flash ends at or below the base of main_ram.
\<close>

lemma compose_regions_list:
  assumes s: "snd (BaseSoC_init l g rv) = Inr s"
  shows "compose_regions l s =
           allocate_all []
             [\<lparr>r_name = ''rom'', r_base = 0x00000000, r_size = 0x8000\<rparr>,
              \<lparr>r_name = ''sram'', r_base = 0x10000000, r_size = integrated_sram_size l\<rparr>,
              \<lparr>r_name = ''csr'', r_base = 0x82000000, r_size = csr_size l\<rparr>,
              \<lparr>r_name = ''main_ram'', r_base = 0x40000000, r_size = 0x400000\<rparr>,
              \<lparr>r_name = ''spiflash'', r_base = 0x20000000, r_size = spiflash_size l\<rparr>]"
  by (simp add: compose_regions_def mem_region_def BaseSoC_init_fields[OF s] getitem_literal
      bind_r_def clamp_def mB_value del: allocate_all.simps)

lemma compose_regions_Inr:
  assumes s: "snd (BaseSoC_init l g rv) = Inr s" and c: "compose_regions l s = Inr rs"
  shows "rs = [\<lparr>r_name = ''rom'', r_base = 0x00000000, r_size = 0x8000\<rparr>,
               \<lparr>r_name = ''sram'', r_base = 0x10000000, r_size = integrated_sram_size l\<rparr>,
               \<lparr>r_name = ''csr'', r_base = 0x82000000, r_size = csr_size l\<rparr>,
               \<lparr>r_name = ''main_ram'', r_base = 0x40000000, r_size = 0x400000\<rparr>,
               \<lparr>r_name = ''spiflash'', r_base = 0x20000000, r_size = spiflash_size l\<rparr>]"
    and "non_overlapping rs"
proof -
  from c have a: "allocate_all []
             [\<lparr>r_name = ''rom'', r_base = 0x00000000, r_size = 0x8000\<rparr>,
              \<lparr>r_name = ''sram'', r_base = 0x10000000, r_size = integrated_sram_size l\<rparr>,
              \<lparr>r_name = ''csr'', r_base = 0x82000000, r_size = csr_size l\<rparr>,
              \<lparr>r_name = ''main_ram'', r_base = 0x40000000, r_size = 0x400000\<rparr>,
              \<lparr>r_name = ''spiflash'', r_base = 0x20000000, r_size = spiflash_size l\<rparr>] = Inr rs"
    by (simp only: compose_regions_list[OF s])
  from allocate_all_append[OF a]
  show "rs = [\<lparr>r_name = ''rom'', r_base = 0x00000000, r_size = 0x8000\<rparr>,
               \<lparr>r_name = ''sram'', r_base = 0x10000000, r_size = integrated_sram_size l\<rparr>,
               \<lparr>r_name = ''csr'', r_base = 0x82000000, r_size = csr_size l\<rparr>,
               \<lparr>r_name = ''main_ram'', r_base = 0x40000000, r_size = 0x400000\<rparr>,
               \<lparr>r_name = ''spiflash'', r_base = 0x20000000, r_size = spiflash_size l\<rparr>]"
    by simp
  from non_overlapping_Nil a show "non_overlapping rs"
    by (rule allocate_all_non_overlapping)
qed

lemma compose_regions_succeeds:
  assumes s: "snd (BaseSoC_init l g rv) = Inr s"
    and "integrated_sram_size l \<le> 0x10000000" and "spiflash_size l \<le> 0x20000000"
  shows "\<exists>rs. compose_regions l s = Inr rs"
  using assms(2,3)
  by (simp add: compose_regions_list[OF s] bind_r_def allocate_def intersects_def)

text \<open>
  Claim C1. In the memory map of a composed SoC (rom at 0x00000000 of size 0x8000, sram
  at 0x10000000, csr at 0x82000000, main_ram at 0x40000000 of size 0x400000, spiflash at
  0x20000000) no two regions intersect, and registering a further region that
  intersects a registered one fails with RegionOverlapError, as the region extra at
  0x40000000 of length 0x100 does. The first two conjuncts state both facts for every
  sequence of registrations. The sizes of sram, spiflash and csr are the library's; the
  map is registered without error when the sram ends at or below the flash base and the
  flash at or below the base of main_ram.
\<close>

theorem composed_regions_disjoint:
  "(allocate_all [] xs = Inr ys \<longrightarrow> non_overlapping ys)
   \<and> ((\<exists>q \<in> set ys. intersects q r) \<longrightarrow> allocate ys r = Inl RegionOverlapError)
   \<and> (\<exists>s. snd (BaseSoC_init l g rv) = Inr s
         \<and> (\<forall>rs. compose_regions l s = Inr rs \<longrightarrow>
               rs = [\<lparr>r_name = ''rom'', r_base = 0x00000000, r_size = 0x8000\<rparr>,
                     \<lparr>r_name = ''sram'', r_base = 0x10000000, r_size = integrated_sram_size l\<rparr>,
                     \<lparr>r_name = ''csr'', r_base = 0x82000000, r_size = csr_size l\<rparr>,
                     \<lparr>r_name = ''main_ram'', r_base = 0x40000000, r_size = 0x400000\<rparr>,
                     \<lparr>r_name = ''spiflash'', r_base = 0x20000000, r_size = spiflash_size l\<rparr>]
               \<and> non_overlapping rs
               \<and> (\<forall>x. (\<exists>q \<in> set rs. intersects q x)
                      \<longrightarrow> allocate rs x = Inl RegionOverlapError)
               \<and> allocate rs \<lparr>r_name = ''extra'', r_base = 0x40000000, r_size = 0x100\<rparr>
                   = Inl RegionOverlapError)
         \<and> (integrated_sram_size l \<le> 0x10000000 \<and> spiflash_size l \<le> 0x20000000
              \<longrightarrow> (\<exists>rs. compose_regions l s = Inr rs)))"
proof -
  let ?cm = "[\<lparr>r_name = ''rom'', r_base = 0x00000000, r_size = 0x8000\<rparr>,
              \<lparr>r_name = ''sram'', r_base = 0x10000000, r_size = integrated_sram_size l\<rparr>,
              \<lparr>r_name = ''csr'', r_base = 0x82000000, r_size = csr_size l\<rparr>,
              \<lparr>r_name = ''main_ram'', r_base = 0x40000000, r_size = 0x400000\<rparr>,
              \<lparr>r_name = ''spiflash'', r_base = 0x20000000, r_size = spiflash_size l\<rparr>]"
  obtain s where s: "snd (BaseSoC_init l g rv) = Inr s"
    using BaseSoC_init_ok by blast
  have e: "allocate ?cm \<lparr>r_name = ''extra'', r_base = 0x40000000, r_size = 0x100\<rparr>
             = Inl RegionOverlapError"
    by (rule allocate_overlap) (simp add: intersects_def)
  have g1: "allocate_all [] xs = Inr ys \<longrightarrow> non_overlapping ys"
    using non_overlapping_Nil allocate_all_non_overlapping by blast
  have g2: "(\<exists>q \<in> set ys. intersects q r) \<longrightarrow> allocate ys r = Inl RegionOverlapError"
    using allocate_overlap by blast
  have g3: "rs = ?cm \<and> non_overlapping rs
            \<and> (\<forall>x. (\<exists>q \<in> set rs. intersects q x) \<longrightarrow> allocate rs x = Inl RegionOverlapError)
            \<and> allocate rs \<lparr>r_name = ''extra'', r_base = 0x40000000, r_size = 0x100\<rparr>
                = Inl RegionOverlapError"
    if c: "compose_regions l s = Inr rs" for rs
  proof -
    from compose_regions_Inr[OF s c] have "rs = ?cm" and "non_overlapping rs" .
    moreover have "\<forall>x. (\<exists>q \<in> set rs. intersects q x) \<longrightarrow> allocate rs x = Inl RegionOverlapError"
      using allocate_overlap by blast
    ultimately show ?thesis using e by blast
  qed
  have g4: "integrated_sram_size l \<le> 0x10000000 \<and> spiflash_size l \<le> 0x20000000
              \<longrightarrow> (\<exists>rs. compose_regions l s = Inr rs)"
    using compose_regions_succeeds[OF s] by blast
  from s g3 g4 have "\<exists>s. snd (BaseSoC_init l g rv) = Inr s
         \<and> (\<forall>rs. compose_regions l s = Inr rs \<longrightarrow>
               rs = ?cm
               \<and> non_overlapping rs
               \<and> (\<forall>x. (\<exists>q \<in> set rs. intersects q x)
                      \<longrightarrow> allocate rs x = Inl RegionOverlapError)
               \<and> allocate rs \<lparr>r_name = ''extra'', r_base = 0x40000000, r_size = 0x100\<rparr>
                   = Inl RegionOverlapError)
         \<and> (integrated_sram_size l \<le> 0x10000000 \<and> spiflash_size l \<le> 0x20000000
              \<longrightarrow> (\<exists>rs. compose_regions l s = Inr rs))"
    by blast
  with g1 g2 show ?thesis by blast
qed

text \<open>
  The scenario of three regions (rom, sram of length 0x1000, main_ram) coexisting and
  the region extra being refused, and the map composed with the example library sizes.
\<close>

theorem composed_regions_disjoint_witness:
  "allocate_all []
        [\<lparr>r_name = ''rom'', r_base = 0x0, r_size = 0x8000\<rparr>,
         \<lparr>r_name = ''sram'', r_base = 0x10000000, r_size = 0x1000\<rparr>,
         \<lparr>r_name = ''main_ram'', r_base = 0x40000000, r_size = 0x400000\<rparr>]
       = Inr [\<lparr>r_name = ''rom'', r_base = 0x0, r_size = 0x8000\<rparr>,
              \<lparr>r_name = ''sram'', r_base = 0x10000000, r_size = 0x1000\<rparr>,
              \<lparr>r_name = ''main_ram'', r_base = 0x40000000, r_size = 0x400000\<rparr>]
   \<and> non_overlapping
        [\<lparr>r_name = ''rom'', r_base = 0x0, r_size = 0x8000\<rparr>,
         \<lparr>r_name = ''sram'', r_base = 0x10000000, r_size = 0x1000\<rparr>,
         \<lparr>r_name = ''main_ram'', r_base = 0x40000000, r_size = 0x400000\<rparr>]
   \<and> (\<exists>q \<in> set [\<lparr>r_name = ''rom'', r_base = 0x0, r_size = 0x8000\<rparr>,
         \<lparr>r_name = ''sram'', r_base = 0x10000000, r_size = 0x1000\<rparr>,
         \<lparr>r_name = ''main_ram'', r_base = 0x40000000, r_size = 0x400000\<rparr>].
        intersects q \<lparr>r_name = ''extra'', r_base = 0x40000000, r_size = 0x100\<rparr>)
   \<and> allocate
        [\<lparr>r_name = ''rom'', r_base = 0x0, r_size = 0x8000\<rparr>,
         \<lparr>r_name = ''sram'', r_base = 0x10000000, r_size = 0x1000\<rparr>,
         \<lparr>r_name = ''main_ram'', r_base = 0x40000000, r_size = 0x400000\<rparr>]
        \<lparr>r_name = ''extra'', r_base = 0x40000000, r_size = 0x100\<rparr> = Inl RegionOverlapError
   \<and> integrated_sram_size lib0 \<le> 0x10000000 \<and> spiflash_size lib0 \<le> 0x20000000
   \<and> (\<exists>s rs. snd (BaseSoC_init lib0 g0 ''7.0'') = Inr s \<and> compose_regions lib0 s = Inr rs
         \<and> non_overlapping rs
         \<and> allocate rs \<lparr>r_name = ''extra'', r_base = 0x40000000, r_size = 0x100\<rparr>
             = Inl RegionOverlapError)"
proof -
  let ?sc = "[\<lparr>r_name = ''rom'', r_base = 0x0, r_size = 0x8000\<rparr>,
              \<lparr>r_name = ''sram'', r_base = 0x10000000, r_size = 0x1000\<rparr>,
              \<lparr>r_name = ''main_ram'', r_base = 0x40000000, r_size = 0x400000\<rparr>]"
  let ?ex = "\<lparr>r_name = ''extra'', r_base = 0x40000000, r_size = 0x100\<rparr>"
  have h1: "integrated_sram_size lib0 \<le> 0x10000000" by (simp add: lib0_def)
  have h2: "spiflash_size lib0 \<le> 0x20000000" by (simp add: lib0_def)
  have h3: "allocate_all [] ?sc = Inr ?sc"
    by (simp add: allocate_def bind_r_def intersects_def)
  have h4: "\<exists>q \<in> set ?sc. intersects q ?ex"
    by (simp add: intersects_def)
  from composed_regions_disjoint[of ?sc ?sc ?ex lib0 g0 "''7.0''"] h3 h4
  obtain s where n: "non_overlapping ?sc"
    and o: "allocate ?sc ?ex = Inl RegionOverlapError"
    and s: "snd (BaseSoC_init lib0 g0 ''7.0'') = Inr s"
    and a: "\<forall>rs. compose_regions lib0 s = Inr rs \<longrightarrow>
              non_overlapping rs \<and> allocate rs ?ex = Inl RegionOverlapError"
    and b: "integrated_sram_size lib0 \<le> 0x10000000 \<and> spiflash_size lib0 \<le> 0x20000000
              \<longrightarrow> (\<exists>rs. compose_regions lib0 s = Inr rs)"
    by blast
  from b h1 h2 obtain rs where c: "compose_regions lib0 s = Inr rs" by blast
  with a have "non_overlapping rs" and "allocate rs ?ex = Inl RegionOverlapError"
    by blast+
  with s c have "\<exists>s rs. snd (BaseSoC_init lib0 g0 ''7.0'') = Inr s
         \<and> compose_regions lib0 s = Inr rs \<and> non_overlapping rs
         \<and> allocate rs ?ex = Inl RegionOverlapError"
    by blast
  with h1 h2 h3 h4 n o show ?thesis by blast
qed



text \<open>The value that \<^verbatim>\<open>configure_boot\<close> publishes, for any SoC object.\<close>

lemma configure_boot_value:
  assumes "''spiflash'' \<in> set (attrs s)" and "getitem (mem_map s) ''spiflash'' = Inr b"
  shows "\<exists>s'. configure_boot s = Inr s'
           \<and> constants s' ''FLASH_BOOT_ADDRESS'' = Some (b + 0x100000)"
  using assms by (simp add: configure_boot_def add_constant_def bind_r_def mB_value)

lemma configure_boot_absent:
  "''spiflash'' \<notin> set (attrs s) \<Longrightarrow> configure_boot s = Inr s"
  by (simp add: configure_boot_def)

text \<open>
  Claim C3. For every composition in which the boot flash is present (the SoC object has
  the attribute spiflash), the constant FLASH_BOOT_ADDRESS that \<^verbatim>\<open>configure_boot\<close>
  publishes is the base of the spiflash region plus 1 MiB:
  0x20000000 + 0x100000 = 0x20100000.
\<close>

theorem flash_boot_address:
  assumes "spiflash_attr l"
  shows "\<exists>s s'. snd (BaseSoC_init l g rv) = Inr s
           \<and> ''spiflash'' \<in> set (attrs s)
           \<and> getitem (mem_map s) ''spiflash'' = Inr 0x20000000
           \<and> configure_boot s = Inr s'
           \<and> constants s' ''FLASH_BOOT_ADDRESS'' = Some (0x20000000 + 1 * mB)
           \<and> constants s' ''FLASH_BOOT_ADDRESS'' = Some 0x20100000"
proof -
  obtain s where s: "snd (BaseSoC_init l g rv) = Inr s"
    using BaseSoC_init_ok by blast
  have a: "''spiflash'' \<in> set (attrs s)"
    using assms BaseSoC_init_fields(7)[OF s] by simp
  have b: "getitem (mem_map s) ''spiflash'' = Inr 0x20000000"
    using BaseSoC_init_fields(2)[OF s] getitem_literal(3) by simp
  from configure_boot_value[OF a b] obtain s' where
    "configure_boot s = Inr s'"
    "constants s' ''FLASH_BOOT_ADDRESS'' = Some (0x20000000 + 0x100000)"
    by blast
  with s a b show ?thesis by (auto simp add: mB_value)
qed

theorem flash_boot_address_witness:
  "spiflash_attr lib0 \<and>
   (\<exists>s s'. snd (BaseSoC_init lib0 g0 ''7.0'') = Inr s
      \<and> configure_boot s = Inr s'
      \<and> constants s' ''FLASH_BOOT_ADDRESS'' = Some 0x20100000)"
proof -
  have h: "spiflash_attr lib0" by (simp add: lib0_def)
  from flash_boot_address[OF h, of g0 "''7.0''"] h show ?thesis by blast
qed

section \<open>The build and load pipeline\<close>

lemma main_unfold:
  assumes "snd (BaseSoC_init (lib e) g ''7.0'') = Inr s"
  shows "main e g a =
          (case builder_build e s (build a) of
             (ev, Inl x) \<Rightarrow> \<lparr>events = map Builder ev, outcome = Inl x\<rparr>
           | (ev, Inr u) \<Rightarrow>
               (if load a
                then \<lparr>events = map Builder ev @
                        [Print (cable a),
                         OsSystem (''openFPGALoader -c '' @ cable a @ '' '' @
                                     os_path_join (gateware_dir e) (build_name e @ ''.bit''))
                                  (os_system e (''openFPGALoader -c '' @ cable a @ '' '' @
                                     os_path_join (gateware_dir e) (build_name e @ ''.bit'')))],
                      outcome = Inr ()\<rparr>
                else \<lparr>events = map Builder ev, outcome = Inr ()\<rparr>))"
  using assms by (simp add: main_def Let_def split: prod.splits sum.splits)

lemma no_os_system_in_builder_events: "\<not> list_ex is_os_system (map Builder ev)"
  by (induction ev) simp_all

text \<open>
  Claim C4, as stated, fails: with \<^verbatim>\<open>--load\<close> and without \<^verbatim>\<open>--build\<close>, the run prepares
  the build inputs, runs no synthesis, and still runs the programmer on the bitstream
  path of the gateware directory; \<^verbatim>\<open>main\<close> returns normally.
\<close>

theorem load_without_build_programs_device:
  "events (main (env0 0) g0 \<lparr>build = False, load = True, cable = ''dirtyJtag''\<rparr>)
     = [Builder PrepareInputs, Print ''dirtyJtag'',
        OsSystem ''openFPGALoader -c dirtyJtag build/colorlight_5a_75b/gateware/colorlight_5a_75b.bit'' 0]
   \<and> programmer_invoked (main (env0 0) g0 \<lparr>build = False, load = True, cable = ''dirtyJtag''\<rparr>)
   \<and> outcome (main (env0 0) g0 \<lparr>build = False, load = True, cable = ''dirtyJtag''\<rparr>) = Inr ()"
proof -
  obtain s where s: "snd (BaseSoC_init (lib (env0 0)) g0 ''7.0'') = Inr s"
    using BaseSoC_init_ok by blast
  show ?thesis
    unfolding main_unfold[OF s] programmer_invoked_def
    by (simp add: env0_def succeeding_builder_def os_path_join_def)
qed

text \<open>
  Claim C4, amended. The programmer is invoked exactly when the load flag is set and
  \<^verbatim>\<open>builder.build\<close> returned without raising, whether or not a build was requested in
  this invocation; an exception of \<^verbatim>\<open>builder.build\<close> leaves \<^verbatim>\<open>main\<close> unchanged and
  before any load, and otherwise \<^verbatim>\<open>main\<close> returns normally.
\<close>

theorem load_gated_by_flag_only:
  "\<exists>s. snd (BaseSoC_init (lib e) g ''7.0'') = Inr s
      \<and> (programmer_invoked (main e g a)
           \<longleftrightarrow> load a \<and> snd (builder_build e s (build a)) = Inr ())
      \<and> (snd (builder_build e s (build a)) = Inr () \<longrightarrow> outcome (main e g a) = Inr ())
      \<and> (\<forall>x. snd (builder_build e s (build a)) = Inl x \<longrightarrow> outcome (main e g a) = Inl x)"
proof -
  obtain s where s: "snd (BaseSoC_init (lib e) g ''7.0'') = Inr s"
    using BaseSoC_init_ok by blast
  obtain ev r where b: "builder_build e s (build a) = (ev, r)"
    by (cases "builder_build e s (build a)")
  have "(programmer_invoked (main e g a)
           \<longleftrightarrow> load a \<and> snd (builder_build e s (build a)) = Inr ())
      \<and> (snd (builder_build e s (build a)) = Inr () \<longrightarrow> outcome (main e g a) = Inr ())
      \<and> (\<forall>x. snd (builder_build e s (build a)) = Inl x \<longrightarrow> outcome (main e g a) = Inl x)"
    by (cases r)
      (simp_all add: main_unfold[OF s] b programmer_invoked_def no_os_system_in_builder_events)
  with s show ?thesis by blast
qed

theorem load_gated_by_flag_only_witness:
  "load \<lparr>build = False, load = True, cable = ''dirtyJtag''\<rparr>
   \<and> (\<exists>s. snd (BaseSoC_init (lib (env0 0)) g0 ''7.0'') = Inr s
         \<and> snd (builder_build (env0 0) s
                  (build \<lparr>build = False, load = True, cable = ''dirtyJtag''\<rparr>)) = Inr ())
   \<and> programmer_invoked (main (env0 0) g0 \<lparr>build = False, load = True, cable = ''dirtyJtag''\<rparr>)
   \<and> outcome (main (env0 0) g0 \<lparr>build = False, load = True, cable = ''dirtyJtag''\<rparr>) = Inr ()"
proof -
  let ?a = "\<lparr>build = False, load = True, cable = ''dirtyJtag''\<rparr>"
  from load_gated_by_flag_only[of "env0 0" g0 ?a]
  obtain s where s: "snd (BaseSoC_init (lib (env0 0)) g0 ''7.0'') = Inr s"
    and p: "programmer_invoked (main (env0 0) g0 ?a)
           \<longleftrightarrow> load ?a \<and> snd (builder_build (env0 0) s (build ?a)) = Inr ()"
    and o: "snd (builder_build (env0 0) s (build ?a)) = Inr ()
           \<longrightarrow> outcome (main (env0 0) g0 ?a) = Inr ()"
    by blast
  have h1: "load ?a" by simp
  have h2: "snd (builder_build (env0 0) s (build ?a)) = Inr ()"
    by (simp add: env0_def succeeding_builder_def)
  from s p o h1 h2 show ?thesis by blast
qed

text \<open>
  Claim C5 at a failing input: the programmer exits with status 1 after a successful
  build. The status is recorded in the trace only; \<^verbatim>\<open>main\<close> returns normally and the
  script exits with status 0.
\<close>

theorem programmer_failure_is_swallowed:
  "events (main (env0 1) g0 \<lparr>build = True, load = True, cable = ''dirtyJtag''\<rparr>)
     = [Builder PrepareInputs, Builder Synthesis, Print ''dirtyJtag'',
        OsSystem ''openFPGALoader -c dirtyJtag build/colorlight_5a_75b/gateware/colorlight_5a_75b.bit'' 1]
   \<and> outcome (main (env0 1) g0 \<lparr>build = True, load = True, cable = ''dirtyJtag''\<rparr>) = Inr ()
   \<and> exit_status (main (env0 1) g0 \<lparr>build = True, load = True, cable = ''dirtyJtag''\<rparr>) = 0"
proof -
  obtain s where s: "snd (BaseSoC_init (lib (env0 1)) g0 ''7.0'') = Inr s"
    using BaseSoC_init_ok by blast
  show ?thesis
    unfolding main_unfold[OF s] exit_status_def
    by (simp add: env0_def succeeding_builder_def os_path_join_def)
qed




section \<open>Composition and process-wide state\<close>

text \<open>
  Claim C7, as stated, fails in its second half: composing a SoC writes the process-wide
  table \<^verbatim>\<open>SoCCore.mem_map\<close>. Started with an empty table, the composition leaves a
  different one behind.
\<close>

theorem composition_writes_global_table:
  "SoCCore_mem_map (fst (BaseSoC_init lib0 g0 ''7.0'')) \<noteq> SoCCore_mem_map g0"
  by (simp add: BaseSoC_init_def Let_def g0_def mem_map_literal_def)

text \<open>
  Claim C7, amended. Composition is deterministic: two compositions for the same board
  revision give the same SoC, with the same regions, clock outputs and attached blocks,
  whatever the process-wide table held before each of them (the clock frequency, the
  memory module and the mapped memory limit are constants of the code). Composition
  does write process-wide state: it overwrites \<^verbatim>\<open>SoCCore.mem_map\<close> with the fixed table
  before reading it, and changes nothing else.
\<close>

theorem composition_deterministic:
  "snd (BaseSoC_init l g1 rv) = snd (BaseSoC_init l g2 rv)
   \<and> map_sum id (descriptor l) (snd (BaseSoC_init l g1 rv))
       = map_sum id (descriptor l) (snd (BaseSoC_init l g2 rv))
   \<and> fst (BaseSoC_init l g1 rv) = g1\<lparr>SoCCore_mem_map := mem_map_literal\<rparr>"
  by (simp add: BaseSoC_init_def Let_def)

section \<open>Clock domains\<close>

text \<open>
  Claim C8. The sys_ps output is created on the same PLL as sys (fed by the 25 MHz
  reference clk25), at the same frequency, with phase 180; the PLL stores the phase it
  is given, so the stored phase is 180 and not a computed value such as 90; and the
  SDRAM clock output is driven by that domain.
\<close>

theorem sys_ps_phase_verbatim:
  "(create_clkout p d f ph = Inr p' \<longrightarrow> clkouts p' = clkouts p @ [\<lparr>cd = d, freq = f, phase = ph\<rparr>])
   \<and> (\<exists>c sy ps. CRG_init pf fr = Inr c
        \<and> clkin (pll c) = Some (''clk25'', 25000000)
        \<and> find_clkout (clkouts (pll c)) ''sys'' = Some sy
        \<and> find_clkout (clkouts (pll c)) ''sys_ps'' = Some ps
        \<and> freq sy = fr \<and> freq ps = freq sy
        \<and> phase ps = 180 \<and> phase ps \<noteq> 90
        \<and> clock_uses (specials c) = [''sys_ps''])"
  by (auto simp add: CRG_init_value create_clkout_def split: option.splits)

theorem sys_ps_phase_verbatim_witness:
  "create_clkout \<lparr>clkin = Some (''clk25'', 25000000), clkouts = []\<rparr> ''sys_ps'' 66000000 180
     = Inr \<lparr>clkin = Some (''clk25'', 25000000),
            clkouts = [\<lparr>cd = ''sys_ps'', freq = 66000000, phase = 180\<rparr>]\<rparr>
   \<and> (\<exists>c ps. CRG_init ''7.0'' 66000000 = Inr c
         \<and> find_clkout (clkouts (pll c)) ''sys_ps'' = Some ps
         \<and> freq ps = 66000000 \<and> phase ps = 180)"
proof -
  let ?p = "\<lparr>clkin = Some (''clk25'', 25000000), clkouts = []\<rparr>"
  let ?p' = "\<lparr>clkin = Some (''clk25'', 25000000),
              clkouts = [\<lparr>cd = ''sys_ps'', freq = 66000000, phase = 180\<rparr>]\<rparr>"
  have h: "create_clkout ?p ''sys_ps'' 66000000 180 = Inr ?p'"
    by (simp add: create_clkout_def)
  from sys_ps_phase_verbatim[of ?p "''sys_ps''" 66000000 180 ?p' "''7.0''" 66000000]
  obtain c and sy ps :: clkout where "CRG_init ''7.0'' 66000000 = Inr c"
    and "find_clkout (clkouts (pll c)) ''sys_ps'' = Some ps"
    and "freq sy = 66000000" and "freq ps = freq sy" and "phase ps = 180"
    by blast
  with h show ?thesis by auto
qed

text \<open>
  Claim C9, as stated, fails: the clock generator uses the sys_ps domain (the SDRAM
  clock output) although no reset synchronizer was ever created for sys_ps, and its
  construction succeeds.
\<close>

theorem sys_ps_used_unsynchronized:
  "map_sum id unsynchronized_uses (CRG_init ''7.0'' 66000000) = Inr [''sys_ps'']"
  by (simp add: CRG_init_value unsynchronized_uses_def)

text \<open>
  Claim C9, amended. The clock generator synchronizes the reset of the sys domain only;
  the sys_ps domain is used by the SDRAM clock output without a reset synchronizer, and
  the construction never fails: the code has no bind check and no
  UnsynchronizedDomainError.
\<close>

theorem crg_synchronizes_only_sys:
  "\<exists>c. CRG_init pf fr = Inr c
      \<and> reset_synchronized (specials c) = [''sys'']
      \<and> clock_uses (specials c) = [''sys_ps'']
      \<and> unsynchronized_uses c = [''sys_ps'']"
  by (simp add: CRG_init_value unsynchronized_uses_def)

text \<open>
  Claim C10. The clock frequency declared for the composed SoC is 3 * 66 MHz = 198 MHz,
  exactly three times the 66 MHz at which the clock generator creates the sys domain
  from the 25 MHz reference; the two frequencies are not equal.
\<close>

theorem declared_clk_freq_thrice_sys:
  "\<exists>s c. snd (BaseSoC_init l g rv) = Inr s
     \<and> clkin (pll (crg s)) = Some (''clk25'', 25000000)
     \<and> find_clkout (clkouts (pll (crg s))) ''sys'' = Some c
     \<and> freq c = 66000000
     \<and> clk_freq s = 198000000
     \<and> clk_freq s = 3 * freq c
     \<and> clk_freq s \<noteq> freq c"
  by (simp add: BaseSoC_init_def CRG_init_value getitem_literal bind_r_def Let_def)

end
